theory Spec2Isabelle
  imports Main
begin

section \<open>Bytes, errors and panics\<close>

text \<open>
  Go's \<^verbatim>\<open>[]byte\<close> is a list of characters (a \<^typ>\<open>char\<close> is one byte). A nil slice
  and an empty slice have the same length and the same contents, and both are the
  empty list here. Go's \<^verbatim>\<open>int64\<close> claim fields are embedded by their integer value:
  \<^verbatim>\<open>validateClaims\<close> only compares them, it never does arithmetic on them.
\<close>

type_synonym bytes = "char list"

text \<open>
  The sentinel errors of \<^verbatim>\<open>claims.go\<close>, the \<^verbatim>\<open>ErrInvalidKey\<close> that \<^verbatim>\<open>rsa.go\<close>
  returns, and the errors that come out of the libraries the package calls
  (\<^verbatim>\<open>encoding/json\<close>, \<^verbatim>\<open>crypto/rsa\<close>, a hash's \<^verbatim>\<open>Write\<close>), kept by their message.
  A Go result of type \<^verbatim>\<open>error\<close> is an \<^typ>\<open>'a option\<close>: \<open>None\<close> is \<^verbatim>\<open>nil\<close>.
\<close>

datatype error =
    ErrExpired
  | ErrNotValidYet
  | ErrIssuedInTheFuture
  | ErrInvalidKey
  | ErrLibrary string

text \<open>The two run-time panics that the modelled statements can raise.\<close>

datatype panic = NilDereference | SliceBoundsOutOfRange

section \<open>The time package, as far as \<^verbatim>\<open>validateClaims\<close> uses it\<close>

text \<open>
  A \<^verbatim>\<open>time.Time\<close> is the number of nanoseconds since the Unix epoch (the monotonic
  reading, which \<^verbatim>\<open>Round\<close> strips, and the location play no part in \<^verbatim>\<open>Unix()\<close>).
  A \<^verbatim>\<open>time.Duration\<close> is a number of nanoseconds.
\<close>

type_synonym Time = int
type_synonym Duration = int

definition Second :: Duration where
  "Second = 1000000000"

text \<open>\<^verbatim>\<open>time.Unix(sec, nsec)\<close>: the time \<open>sec\<close> seconds and \<open>nsec\<close> nanoseconds after the epoch.\<close>

definition time_Unix :: "int \<Rightarrow> int \<Rightarrow> Time" where
  "time_Unix sec nsec = sec * Second + nsec"

text \<open>
  \<^verbatim>\<open>Time.Round\<close> counts multiples of \<open>d\<close> from the zero time (1 January of year 1),
  which lies \<open>unixToInternal\<close> seconds before the epoch. The remainder \<open>r\<close> that its
  helper \<^verbatim>\<open>div\<close> returns is never negative; \<^verbatim>\<open>lessThanHalf\<close> sends a half-way value up.
\<close>

definition unixToInternal :: int where
  "unixToInternal = 62135596800"

definition lessThanHalf :: "Duration \<Rightarrow> Duration \<Rightarrow> bool" where
  "lessThanHalf x y = (x + x < y)"

definition Time_Round :: "Time \<Rightarrow> Duration \<Rightarrow> Time" where
  "Time_Round t d =
     (if d \<le> 0 then t
      else let r = (t + unixToInternal * Second) mod d
           in if lessThanHalf r d then t - r else t + (d - r))"

text \<open>\<^verbatim>\<open>Time.Unix()\<close>: whole seconds since the epoch; the nanosecond part is dropped.\<close>

definition Time_Unix :: "Time \<Rightarrow> int" where
  "Time_Unix t = t div Second"

section \<open>claims.go\<close>

record Claims =
  NotBefore :: int
  IssuedAt :: int
  Expiry :: int
  ID :: string
  Issuer :: string
  Subject :: string
  Audience :: "string list"

text \<open>
  Each check of \<^verbatim>\<open>validateClaims\<close> is an \<^verbatim>\<open>if\<close> inside an \<^verbatim>\<open>if\<close> with no \<^verbatim>\<open>else\<close>,
  which is one test of the conjunction; a check that does not return falls through to
  the next one.
\<close>

definition validateClaims :: "Time \<Rightarrow> Claims \<Rightarrow> error option" where
  "validateClaims t claims =
     (let now = Time_Unix (Time_Round t Second) in
      if NotBefore claims > 0 \<and> now < NotBefore claims then Some ErrNotValidYet
      else if IssuedAt claims > 0 \<and> now < IssuedAt claims then Some ErrIssuedInTheFuture
      else if Expiry claims > 0 \<and> now > Expiry claims then Some ErrExpired
      else None)"

text \<open>
  \<^verbatim>\<open>Merge\<close> calls the package's \<^verbatim>\<open>Marshal\<close>, which is declared elsewhere in the
  package; it is a parameter here, from a value to its bytes or an error. The two slice
  expressions are written out: \<^verbatim>\<open>claimsB[0 : len(claimsB)-1]\<close> panics on an empty
  \<^verbatim>\<open>claimsB\<close>, and \<^verbatim>\<open>otherB[1:]\<close> is only reached with a non-empty \<^verbatim>\<open>otherB\<close>.
\<close>

definition Merge :: "('v \<Rightarrow> error + bytes) \<Rightarrow> 'v \<Rightarrow> 'v \<Rightarrow> panic + bytes" where
  "Merge Marshal claims other =
     (case Marshal claims of
        Inl err \<Rightarrow> Inr []
      | Inr claimsB \<Rightarrow>
          (case Marshal other of
             Inl err \<Rightarrow> Inr []
           | Inr otherB \<Rightarrow>
               if length otherB = 0 then Inr claimsB
               else if length claimsB = 0 then Inl SliceBoundsOutOfRange
               else Inr (take (length claimsB - 1) claimsB @ [CHR '',''] @ drop 1 otherB)))"

text \<open>
  The three rules that the validator applies to the rounded time \<open>now\<close>, one predicate
  for each: a rule is violated when its claim is asserted (greater than zero) and the
  comparison fails.
\<close>

definition notBefore_violated :: "int \<Rightarrow> Claims \<Rightarrow> bool" where
  "notBefore_violated now claims = (0 < NotBefore claims \<and> now < NotBefore claims)"

definition issuedAt_violated :: "int \<Rightarrow> Claims \<Rightarrow> bool" where
  "issuedAt_violated now claims = (0 < IssuedAt claims \<and> now < IssuedAt claims)"

definition expiry_violated :: "int \<Rightarrow> Claims \<Rightarrow> bool" where
  "expiry_violated now claims = (0 < Expiry claims \<and> Expiry claims < now)"

section \<open>rsa.go\<close>

text \<open>
  The key arrives as an \<^verbatim>\<open>interface{}\<close>; the two type assertions tell a
  \<^verbatim>\<open>*rsa.PublicKey\<close> from a \<^verbatim>\<open>*rsa.PrivateKey\<close> from a value of any other dynamic type
  (a byte slice, a key of another family, an \<^verbatim>\<open>rsa.PrivateKey\<close> passed by value, the nil
  interface). A pointer may be nil, and a type assertion succeeds on a nil pointer of the
  asserted type.
\<close>

datatype 'a pointer = nil | ptr 'a

record rsa_PublicKey =
  N :: int
  E :: int

record rsa_PrivateKey =
  PublicKey :: rsa_PublicKey
  D :: int
  Primes :: "int list"

datatype 'other key =
    RSAPublicKey "rsa_PublicKey pointer"
  | RSAPrivateKey "rsa_PrivateKey pointer"
  | OtherKey 'other

record algRSA =
  name :: string
  hasher :: nat

definition Name :: "algRSA \<Rightarrow> string" where
  "Name a = name a"

text \<open>
  The library calls of \<^verbatim>\<open>rsa.go\<close>, as parameters: \<open>hash_Sum h b\<close> stands for
  \<^verbatim>\<open>h := a.hasher.New(); _, err := h.Write(b); h.Sum(nil)\<close> and is \<open>Inl err\<close> when
  \<^verbatim>\<open>Write\<close> fails; the two PKCS #1 v1.5 functions of \<^verbatim>\<open>crypto/rsa\<close> take the key
  pointer, the hash identifier and the digest (the random source of \<^verbatim>\<open>SignPKCS1v15\<close> is
  part of the library). What the libraries do inside, a panic included, is not modelled.
\<close>

record crypto =
  hash_Sum :: "nat \<Rightarrow> bytes \<Rightarrow> error + bytes"
  rsa_SignPKCS1v15 :: "rsa_PrivateKey pointer \<Rightarrow> nat \<Rightarrow> bytes \<Rightarrow> error + bytes"
  rsa_VerifyPKCS1v15 :: "rsa_PublicKey pointer \<Rightarrow> nat \<Rightarrow> bytes \<Rightarrow> bytes \<Rightarrow> error option"

definition Sign :: "crypto \<Rightarrow> algRSA \<Rightarrow> bytes \<Rightarrow> 'other key \<Rightarrow> error + bytes" where
  "Sign lib a headerAndPayload key =
     (case key of
        RSAPrivateKey privateKey \<Rightarrow>
          (case hash_Sum lib (hasher a) headerAndPayload of
             Inl err \<Rightarrow> Inl err
           | Inr hashed \<Rightarrow> rsa_SignPKCS1v15 lib privateKey (hasher a) hashed)
      | _ \<Rightarrow> Inl ErrInvalidKey)"

text \<open>Lines 45 to 53 of \<^verbatim>\<open>Verify\<close>: what it does once \<open>publicKey\<close> is settled.\<close>

definition Verify_with :: "crypto \<Rightarrow> algRSA \<Rightarrow> bytes \<Rightarrow> bytes \<Rightarrow> rsa_PublicKey pointer \<Rightarrow> error option" where
  "Verify_with lib a headerAndPayload signature publicKey =
     (case hash_Sum lib (hasher a) headerAndPayload of
        Inl err \<Rightarrow> Some err
      | Inr hashed \<Rightarrow> rsa_VerifyPKCS1v15 lib publicKey (hasher a) hashed signature)"

text \<open>
  \<^verbatim>\<open>&privateKey.PublicKey\<close> is the address of the embedded public key; on a nil
  \<^verbatim>\<open>privateKey\<close> the selector panics.
\<close>

definition Verify :: "crypto \<Rightarrow> algRSA \<Rightarrow> bytes \<Rightarrow> bytes \<Rightarrow> 'other key \<Rightarrow> panic + error option" where
  "Verify lib a headerAndPayload signature key =
     (case key of
        RSAPublicKey publicKey \<Rightarrow> Inr (Verify_with lib a headerAndPayload signature publicKey)
      | RSAPrivateKey privateKey \<Rightarrow>
          (case privateKey of
             nil \<Rightarrow> Inl NilDereference
           | ptr k \<Rightarrow> Inr (Verify_with lib a headerAndPayload signature (ptr (PublicKey k))))
      | OtherKey _ \<Rightarrow> Inr (Some ErrInvalidKey))"

section \<open>Concrete values for the examples\<close>

definition temporal_claims :: "int \<Rightarrow> int \<Rightarrow> int \<Rightarrow> Claims" where
  "temporal_claims nbf iat exp = \<lparr>NotBefore = nbf, IssuedAt = iat, Expiry = exp, ID = [],
     Issuer = [], Subject = [], Audience = []\<rparr>"

definition claims_100 :: Claims where
  "claims_100 = \<lparr>NotBefore = 100, IssuedAt = 50, Expiry = 100, ID = ''id-1'',
     Issuer = ''an-issuer'', Subject = ''alice'', Audience = [''api'']\<rparr>"

text \<open>
  A \<^verbatim>\<open>Marshal\<close> for the examples: a value is its own JSON text (as a
  \<^verbatim>\<open>json.RawMessage\<close> is), but for one value that cannot be serialized.
\<close>

definition Marshal_ex :: "bytes \<Rightarrow> error + bytes" where
  "Marshal_ex v =
     (if v = ''chan'' then Inl (ErrLibrary ''json: unsupported type: chan int'') else Inr v)"

text \<open>
  A stand-in for the libraries: the digest is the input reversed, a signature is the
  digest preceded by a one-character tag of the key's modulus, and verification
  recomputes it.
\<close>

definition tag_ex :: "int \<Rightarrow> char" where
  "tag_ex n = (if n = 77 then CHR ''M'' else CHR ''?'')"

definition crypto_ex :: crypto where
  "crypto_ex =
     \<lparr>hash_Sum = (\<lambda>h b. if b = [] then Inl (ErrLibrary ''short write'') else Inr (rev b)),
      rsa_SignPKCS1v15 = (\<lambda>k h d.
        case k of nil \<Rightarrow> Inl (ErrLibrary ''crypto/rsa: missing key'')
        | ptr priv \<Rightarrow> Inr (tag_ex (N (PublicKey priv)) # d)),
      rsa_VerifyPKCS1v15 = (\<lambda>k h d s.
        case k of nil \<Rightarrow> Some (ErrLibrary ''crypto/rsa: missing public modulus'')
        | ptr pub \<Rightarrow> if s = tag_ex (N pub) # d then None
                     else Some (ErrLibrary ''crypto/rsa: verification error''))\<rparr>"

definition RS256 :: algRSA where
  "RS256 = \<lparr>name = ''RS256'', hasher = 5\<rparr>"

definition priv_ex :: rsa_PrivateKey where
  "priv_ex = \<lparr>PublicKey = \<lparr>N = 77, E = 7\<rparr>, D = 43, Primes = [7, 11]\<rparr>"

section \<open>Theorems about the claims validator\<close>

subsection \<open>The rounded time\<close>

lemma Second_positive: "0 < Second"
  by (simp add: Second_def)

lemma Unix_whole: "Time_Unix (s * Second) = s"
  by (simp add: Time_Unix_def Second_def)

lemma Round_remainder:
  assumes "0 \<le> f" "f < Second"
  shows "(time_Unix s f + unixToInternal * Second) mod Second = f"
proof -
  have "time_Unix s f + unixToInternal * Second = f + (s + unixToInternal) * Second"
    by (simp add: time_Unix_def algebra_simps)
  then have "(time_Unix s f + unixToInternal * Second) mod Second = f mod Second"
    by simp
  with assms show ?thesis by simp
qed

lemma now_low_fraction:
  assumes "0 \<le> f" "f + f < Second"
  shows "Time_Unix (Time_Round (time_Unix s f) Second) = s"
proof -
  from assms have "f < Second" by simp
  with assms have r: "(time_Unix s f + unixToInternal * Second) mod Second = f"
    by (intro Round_remainder)
  have "Time_Round (time_Unix s f) Second = time_Unix s f - f"
    unfolding Time_Round_def Let_def r lessThanHalf_def using assms Second_positive by simp
  also have "\<dots> = s * Second" by (simp add: time_Unix_def)
  finally show ?thesis by (simp add: Unix_whole)
qed


lemma now_whole_second: "Time_Unix (Time_Round (time_Unix s 0) Second) = s"
  using now_low_fraction [of 0 s] Second_positive by simp

text \<open>The validator, read through the three rules on the rounded time.\<close>

lemma validateClaims_now:
  "validateClaims t claims =
     (let now = Time_Unix (Time_Round t Second) in
      if notBefore_violated now claims then Some ErrNotValidYet
      else if issuedAt_violated now claims then Some ErrIssuedInTheFuture
      else if expiry_violated now claims then Some ErrExpired
      else None)"
  by (simp add: validateClaims_def notBefore_violated_def issuedAt_violated_def
      expiry_violated_def Let_def)

subsection \<open>Temporal boundaries\<close>

text \<open>
  C1. With expiry \<open>T > 0\<close>, validation at the time \<open>T\<close> succeeds and validation one
  second later fails with \<open>ErrExpired\<close>; with not-before \<open>T > 0\<close>, validation one second
  before \<open>T\<close> fails with \<open>ErrNotValidYet\<close> and validation at \<open>T\<close> succeeds. Each success,
  and the expiry failure, assume that no other temporal rule is violated at that time.
\<close>

theorem validateClaims_boundaries:
  "(Expiry c = T \<and> 0 < T \<and> \<not> notBefore_violated T c \<and> \<not> issuedAt_violated T c
      \<longrightarrow> validateClaims (time_Unix T 0) c = None) \<and>
   (Expiry c = T \<and> 0 < T \<and> \<not> notBefore_violated (T + 1) c \<and> \<not> issuedAt_violated (T + 1) c
      \<longrightarrow> validateClaims (time_Unix (T + 1) 0) c = Some ErrExpired) \<and>
   (NotBefore c = T \<and> 0 < T
      \<longrightarrow> validateClaims (time_Unix (T - 1) 0) c = Some ErrNotValidYet) \<and>
   (NotBefore c = T \<and> 0 < T \<and> \<not> issuedAt_violated T c \<and> \<not> expiry_violated T c
      \<longrightarrow> validateClaims (time_Unix T 0) c = None)"
proof (intro conjI impI)
  assume "Expiry c = T \<and> 0 < T \<and> \<not> notBefore_violated T c \<and> \<not> issuedAt_violated T c"
  then show "validateClaims (time_Unix T 0) c = None"
    by (simp add: validateClaims_now now_whole_second expiry_violated_def)
next
  assume "Expiry c = T \<and> 0 < T \<and> \<not> notBefore_violated (T + 1) c \<and>
    \<not> issuedAt_violated (T + 1) c"
  then show "validateClaims (time_Unix (T + 1) 0) c = Some ErrExpired"
    by (simp add: validateClaims_now now_whole_second expiry_violated_def)
next
  assume "NotBefore c = T \<and> 0 < T"
  then show "validateClaims (time_Unix (T - 1) 0) c = Some ErrNotValidYet"
    by (simp add: validateClaims_now now_whole_second notBefore_violated_def)
next
  assume "NotBefore c = T \<and> 0 < T \<and> \<not> issuedAt_violated T c \<and> \<not> expiry_violated T c"
  then show "validateClaims (time_Unix T 0) c = None"
    by (simp add: validateClaims_now now_whole_second notBefore_violated_def)
qed

theorem validateClaims_boundaries_witness:
  "Expiry claims_100 = 100 \<and> NotBefore claims_100 = 100 \<and>
   \<not> notBefore_violated 100 claims_100 \<and> \<not> issuedAt_violated 100 claims_100 \<and>
   \<not> notBefore_violated 101 claims_100 \<and> \<not> issuedAt_violated 101 claims_100 \<and>
   \<not> expiry_violated 100 claims_100 \<and>
   validateClaims (time_Unix 100 0) claims_100 = None \<and>
   validateClaims (time_Unix 101 0) claims_100 = Some ErrExpired \<and>
   validateClaims (time_Unix 99 0) claims_100 = Some ErrNotValidYet"
  using validateClaims_boundaries [of claims_100 100]
  by (simp add: claims_100_def notBefore_violated_def issuedAt_violated_def
      expiry_violated_def)

subsection \<open>Rounding of the current time\<close>




subsection \<open>Order of the checks\<close>

text \<open>
  C3. The rules are tried in the order not-before, issued-at, expiry, and the error
  of the first violated rule is the result. So a violated not-before rule gives
  \<open>ErrNotValidYet\<close> also when the expiry rule is violated, and when the issued-at and
  expiry rules are both violated the result is never \<open>ErrExpired\<close>: it is
  \<open>ErrIssuedInTheFuture\<close>, unless the not-before rule, which comes first, is violated too.
\<close>

theorem validateClaims_first_violation:
  "now = Time_Unix (Time_Round t Second) \<Longrightarrow>
   (notBefore_violated now c \<longrightarrow> validateClaims t c = Some ErrNotValidYet) \<and>
   (\<not> notBefore_violated now c \<and> issuedAt_violated now c
      \<longrightarrow> validateClaims t c = Some ErrIssuedInTheFuture) \<and>
   (\<not> notBefore_violated now c \<and> \<not> issuedAt_violated now c \<and> expiry_violated now c
      \<longrightarrow> validateClaims t c = Some ErrExpired) \<and>
   (\<not> notBefore_violated now c \<and> \<not> issuedAt_violated now c \<and> \<not> expiry_violated now c
      \<longrightarrow> validateClaims t c = None) \<and>
   (notBefore_violated now c \<and> expiry_violated now c
      \<longrightarrow> validateClaims t c = Some ErrNotValidYet) \<and>
   (issuedAt_violated now c \<and> expiry_violated now c
      \<longrightarrow> validateClaims t c =
            (if notBefore_violated now c then Some ErrNotValidYet
             else Some ErrIssuedInTheFuture))"
  by (simp add: validateClaims_now Let_def)

theorem validateClaims_first_violation_witness:
  "notBefore_violated 100 (temporal_claims 300 200 50) \<and>
   issuedAt_violated 100 (temporal_claims 300 200 50) \<and>
   expiry_violated 100 (temporal_claims 300 200 50) \<and>
   validateClaims (time_Unix 100 0) (temporal_claims 300 200 50) = Some ErrNotValidYet \<and>
   validateClaims (time_Unix 100 0) (temporal_claims 300 0 50) = Some ErrNotValidYet \<and>
   validateClaims (time_Unix 100 0) (temporal_claims 0 200 50) = Some ErrIssuedInTheFuture \<and>
   validateClaims (time_Unix 100 0) (temporal_claims 0 0 50) = Some ErrExpired \<and>
   validateClaims (time_Unix 100 0) (temporal_claims 100 50 100) = None"
  using validateClaims_first_violation [of 100 "time_Unix 100 0" "temporal_claims 300 200 50"]
    validateClaims_first_violation [of 100 "time_Unix 100 0" "temporal_claims 300 0 50"]
    validateClaims_first_violation [of 100 "time_Unix 100 0" "temporal_claims 0 200 50"]
    validateClaims_first_violation [of 100 "time_Unix 100 0" "temporal_claims 0 0 50"]
    validateClaims_first_violation [of 100 "time_Unix 100 0" "temporal_claims 100 50 100"]
  by (simp add: now_whole_second temporal_claims_def notBefore_violated_def
      issuedAt_violated_def expiry_violated_def)

subsection \<open>Claims that are not asserted\<close>

text \<open>
  C4. A claims value whose not-before, issued-at and expiry fields are all zero passes
  validation at every current time.
\<close>

theorem validateClaims_zero_fields:
  "NotBefore claims = 0 \<Longrightarrow> IssuedAt claims = 0 \<Longrightarrow> Expiry claims = 0 \<Longrightarrow>
   validateClaims t claims = None"
  by (simp add: validateClaims_def)

theorem validateClaims_zero_fields_witness:
  "NotBefore (temporal_claims 0 0 0) = 0 \<and> IssuedAt (temporal_claims 0 0 0) = 0 \<and>
   Expiry (temporal_claims 0 0 0) = 0 \<and>
   validateClaims (time_Unix 1700000000 250000000) (temporal_claims 0 0 0) = None"
  using validateClaims_zero_fields [of "temporal_claims 0 0 0" "time_Unix 1700000000 250000000"]
  by (simp add: temporal_claims_def)

subsection \<open>What the result depends on\<close>

text \<open>
  C10. The validator reads the current time and the not-before, issued-at and expiry
  fields only: two claims values that agree on these three fields get the same result
  at every time, whatever their ID, issuer, subject and audience.
\<close>

theorem validateClaims_temporal_fields_only:
  "NotBefore c1 = NotBefore c2 \<Longrightarrow> IssuedAt c1 = IssuedAt c2 \<Longrightarrow> Expiry c1 = Expiry c2 \<Longrightarrow>
   validateClaims t c1 = validateClaims t c2"
  unfolding validateClaims_def by (simp only:)

theorem validateClaims_temporal_fields_only_witness:
  "NotBefore claims_100 = NotBefore (temporal_claims 100 50 100) \<and>
   IssuedAt claims_100 = IssuedAt (temporal_claims 100 50 100) \<and>
   Expiry claims_100 = Expiry (temporal_claims 100 50 100) \<and>
   ID claims_100 \<noteq> ID (temporal_claims 100 50 100) \<and>
   Issuer claims_100 \<noteq> Issuer (temporal_claims 100 50 100) \<and>
   Subject claims_100 \<noteq> Subject (temporal_claims 100 50 100) \<and>
   Audience claims_100 \<noteq> Audience (temporal_claims 100 50 100) \<and>
   validateClaims (time_Unix 101 0) claims_100 =
     validateClaims (time_Unix 101 0) (temporal_claims 100 50 100)"
  using validateClaims_temporal_fields_only
    [of claims_100 "temporal_claims 100 50 100" "time_Unix 101 0"]
  by (simp add: claims_100_def temporal_claims_def)

section \<open>Theorems about Merge\<close>

text \<open>A secondary whose serialization has no bytes leaves the primary's bytes as they are.\<close>

lemma Merge_absent_secondary:
  "Marshal claims = Inr claimsB \<Longrightarrow> Marshal other = Inr [] \<Longrightarrow>
   Merge Marshal claims other = Inr claimsB"
  by (simp add: Merge_def)

text \<open>With an empty primary and a non-empty secondary the first slice expression panics.\<close>

lemma Merge_empty_primary:
  "Marshal claims = Inr [] \<Longrightarrow> Marshal other = Inr (b # otherB) \<Longrightarrow>
   Merge Marshal claims other = Inl SliceBoundsOutOfRange"
  by (simp add: Merge_def)

text \<open>
  C6. Merging with a secondary that serializes to an empty JSON object should return
  the primary's serialization unchanged. The code tests the length of the secondary's
  bytes only: the empty object \<^verbatim>\<open>{}\<close> has two bytes, so the braces are cut and joined,
  and the result of merging \<^verbatim>\<open>{"foo":"bar"}\<close> with \<^verbatim>\<open>{}\<close> is \<^verbatim>\<open>{"foo":"bar",}\<close>, which is
  neither the primary's serialization nor JSON.
\<close>

theorem Merge_empty_object_secondary:
  \<open>Marshal_ex ''{"foo":"bar"}'' = Inr ''{"foo":"bar"}'' \<and> Marshal_ex ''{}'' = Inr ''{}'' \<and>
   Merge Marshal_ex ''{"foo":"bar"}'' ''{}'' = Inr ''{"foo":"bar",}'' \<and>
   Merge Marshal_ex ''{"foo":"bar"}'' ''{}'' \<noteq> Inr ''{"foo":"bar"}''\<close>
  by (simp add: Merge_def Marshal_ex_def)

text \<open>
  C7. When the primary serializes to bytes that end with a closing brace and the
  secondary to bytes that begin with an opening brace, Merge returns the primary's
  bytes without that closing brace, a comma, and the secondary's bytes without that
  opening brace; the keys are not compared.
\<close>

theorem Merge_concatenates:
  "Marshal claims = Inr (p @ ''}'') \<Longrightarrow> Marshal other = Inr (CHR ''{'' # s) \<Longrightarrow>
   Merge Marshal claims other = Inr (p @ '','' @ s)"
  by (simp add: Merge_def)

theorem Merge_concatenates_witness:
  \<open>Marshal_ex ''{"foo":"bar"}'' = Inr (''{"foo":"bar"'' @ ''}'') \<and>
   Marshal_ex ''{"foo":"baz"}'' = Inr (CHR ''{'' # ''"foo":"baz"}'') \<and>
   Merge Marshal_ex ''{"foo":"bar"}'' ''{"foo":"baz"}'' = Inr ''{"foo":"bar","foo":"baz"}''\<close>
  using Merge_concatenates [of Marshal_ex \<open>''{"foo":"bar"}''\<close> \<open>''{"foo":"bar"''\<close>
      \<open>''{"foo":"baz"}''\<close> \<open>''"foo":"baz"}''\<close>]
  by (simp add: Marshal_ex_def)

section \<open>Theorems about the RSA algorithm\<close>

text \<open>
  C5. For every RSA algorithm value: Sign returns \<open>ErrInvalidKey\<close> for every key that is
  not an RSA private key, Verify returns \<open>ErrInvalidKey\<close> for every key that is neither an
  RSA public key nor an RSA private key, and Verify with an RSA private key takes the
  public key inside it and goes on to hash and verify with that public key.
\<close>

theorem RSA_key_family:
  "((\<forall>p. key \<noteq> RSAPrivateKey p)
      \<longrightarrow> Sign lib a headerAndPayload (key :: 'other key) = Inl ErrInvalidKey) \<and>
   ((\<forall>p. key \<noteq> RSAPublicKey p) \<and> (\<forall>p. key \<noteq> RSAPrivateKey p)
      \<longrightarrow> Verify lib a headerAndPayload signature key = Inr (Some ErrInvalidKey)) \<and>
   Verify lib a headerAndPayload signature (RSAPrivateKey (ptr k) :: 'other key) =
     Inr (case hash_Sum lib (hasher a) headerAndPayload of
            Inl err \<Rightarrow> Some err
          | Inr hashed \<Rightarrow>
              rsa_VerifyPKCS1v15 lib (ptr (PublicKey k)) (hasher a) hashed signature)"
  by (cases key) (simp_all add: Sign_def Verify_def Verify_with_def)

theorem RSA_key_family_witness:
  "Sign crypto_ex RS256 ''h.p'' (OtherKey ''secret'') = Inl ErrInvalidKey \<and>
   Sign crypto_ex RS256 ''h.p'' (RSAPublicKey (ptr (PublicKey priv_ex)) :: string key)
     = Inl ErrInvalidKey \<and>
   Verify crypto_ex RS256 ''h.p'' ''Mp.h'' (OtherKey ''secret'') = Inr (Some ErrInvalidKey) \<and>
   Verify crypto_ex RS256 ''h.p'' ''Mp.h'' (RSAPrivateKey (ptr priv_ex) :: string key)
     = Inr None"
  using RSA_key_family [of "OtherKey ''secret''" crypto_ex RS256 "''h.p''" "''Mp.h''" priv_ex]
    RSA_key_family [of "RSAPublicKey (ptr (PublicKey priv_ex)) :: string key" crypto_ex RS256
      "''h.p''" "''Mp.h''" priv_ex]
  by (simp add: crypto_ex_def RS256_def priv_ex_def tag_ex_def)

text \<open>A nil private key pointer passes the type assertion, and the selector panics.\<close>

lemma Verify_nil_private_key:
  "Verify lib a headerAndPayload signature (RSAPrivateKey nil) = Inl NilDereference"
  by (simp add: Verify_def)

text \<open>
  C9. For every RSA private key, every signing input and every signature, Verify with
  the private key returns what Verify with the public key inside it returns.
\<close>

theorem Verify_private_as_public:
  "Verify lib a headerAndPayload signature (RSAPrivateKey (ptr k)) =
   Verify lib a headerAndPayload signature (RSAPublicKey (ptr (PublicKey k)))"
  by (simp add: Verify_def)

section \<open>Where errors go\<close>




end
